theory Spec2Isabelle
  imports Complex_Main
begin

section \<open>The Gemini generator of Verba: data model\<close>

text \<open>
  The source is \<^verbatim>\<open>goldenverba/components/generation/GeminiGenerator.py\<close>: one class,
  \<^verbatim>\<open>GPT4Generator\<close>, with the constructor, the blocking \<^verbatim>\<open>generate\<close>, the streaming
  \<^verbatim>\<open>generate_stream\<close> and the message composer \<^verbatim>\<open>prepare_messages\<close>.

  Python values that may be \<^verbatim>\<open>None\<close> or a string are \<open>pyval\<close>. Exceptions are values of
  \<open>py_exception\<close>; \<open>BackendError\<close> stands for any other exception an external library
  raises, tagged with an opaque description.
\<close>

datatype pyval = PyNone | PyStr string

datatype py_exception =
    StopAsyncIteration
  | StopIteration
  | NameError string
  | IndexError
  | TypeError
  | AttributeError string
  | ModuleNotFoundError string
  | RuntimeError string
  | BackendError string

text \<open>
  A prompt entry is the dict \<^verbatim>\<open>{"role": ..., "content": ...}\<close>. A conversation turn is an
  object read through its attributes \<^verbatim>\<open>.type\<close> and \<^verbatim>\<open>.content\<close>; the second attribute is
  named \<open>content_attr\<close> here, apart from the dict key \<open>content\<close>.
\<close>

record message =
  role :: string
  content :: string

record conversation_item =
  type :: string
  content_attr :: string

text \<open>
  A streamed chunk is \<^verbatim>\<open>{"choices": [{"delta": {...}, "finish_reason": ...}, ...]}\<close>. The
  delta is a dict, so the test \<^verbatim>\<open>"content" in delta\<close> is a test on the key. The choice's
  finish reason is named \<open>choice_finish_reason\<close>, apart from the key of the yielded dict.
\<close>

record choice =
  delta :: "string \<rightharpoonup> pyval"
  choice_finish_reason :: pyval

record chunk =
  choices :: "choice list"

record token_event =
  message :: pyval
  finish_reason :: pyval

text \<open>
  One call of \<^verbatim>\<open>completion.__anext__()\<close> either returns a chunk or raises. A scripted
  backend stream is the list of these results; a stream that has no further result raises
  \<^verbatim>\<open>StopAsyncIteration\<close>, as every exhausted asynchronous iterator does.
\<close>

datatype anext_result = Chunk chunk | Raise py_exception

text \<open>
  The blocking response, read as \<^verbatim>\<open>completion["choices"][0]["message"]["content"]\<close>.
\<close>

record completion_choice =
  message_content :: pyval

record completion =
  completion_choices :: "completion_choice list"

text \<open>The module-level configuration fields of the \<^verbatim>\<open>openai\<close> package that the code touches.\<close>

record openai_module =
  api_key :: "string option"
  api_base :: string
  api_type :: string
  api_version :: "string option"

text \<open>The keyword arguments of the completion request; an absent key is \<open>None\<close>.\<close>

record chat_completion_arguments =
  model :: string
  messages :: "message list"
  stream :: "bool option"
  temperature :: "real option"
  deployment_id :: "string option"

text \<open>The attributes that the constructor sets on \<^verbatim>\<open>self\<close>.\<close>

record generator =
  name :: string
  description :: string
  requires_library :: "string list"
  requires_env :: "string list"
  streamable :: bool
  model_name :: string
  context_window :: int

text \<open>
  Everything outside the file that a call can observe: the process environment, the result of
  \<^verbatim>\<open>import openai\<close>, \<^verbatim>\<open>vertexai.init\<close> (which may raise), and the two completion
  entry points of the backend, each of which may raise.
\<close>

record world =
  environ :: "string \<rightharpoonup> string"
  openai_import :: "py_exception + openai_module"
  vertexai_init :: "string option \<Rightarrow> string \<Rightarrow> py_exception option"
  ChatCompletion_create ::
    "openai_module \<Rightarrow> chat_completion_arguments \<Rightarrow> py_exception + completion"
  ChatCompletion_acreate ::
    "openai_module \<Rightarrow> chat_completion_arguments \<Rightarrow> py_exception + anext_result list"

text \<open>What a call of \<^verbatim>\<open>generate\<close> leaves behind: its result and the requests it issued.\<close>

record blocking_outcome =
  returned :: "py_exception + string"
  requests_sent :: "chat_completion_arguments list"

text \<open>
  What a fully consumed call of \<^verbatim>\<open>generate_stream\<close> leaves behind: the events yielded, in
  order, the exception that ended the sequence (if any), the requests opened, and the
  configuration of the \<^verbatim>\<open>openai\<close> module after the call.
\<close>

record stream_outcome =
  events :: "token_event list"
  raised :: "py_exception option"
  requests_opened :: "chat_completion_arguments list"
  openai_after :: "openai_module option"

section \<open>The constructor\<close>

definition getenv_default :: "(string \<rightharpoonup> string) \<Rightarrow> string \<Rightarrow> string \<Rightarrow> string" where
  "getenv_default env k d = (case env k of None \<Rightarrow> d | Some v \<Rightarrow> v)"

definition init :: "(string \<rightharpoonup> string) \<Rightarrow> generator" where
  "init env =
     \<lparr> name = ''GeminiGenerator'',
       description = ''Generator using Google's Gemini 1.5 Pro model'',
       requires_library = [''google-cloud-aiplatform''],
       requires_env = [''GOOGLE_APPLICATION_CREDENTIALS'', ''GOOGLE_CLOUD_PROJECT''],
       streamable = True,
       model_name = getenv_default env ''GEMINI_MODEL'' ''gemini-1.5-pro-preview-0409'',
       context_window = 10000 \<rparr>"

section \<open>The message composer\<close>

text \<open>Python's \<^verbatim>\<open>sep.join(xs)\<close> on a list of strings.\<close>

fun join :: "string \<Rightarrow> string list \<Rightarrow> string" where
  "join sep [] = []"
| "join sep [x] = x"
| "join sep (x # y # ys) = x @ sep @ join sep (y # ys)"

definition system_content :: string where
  "system_content = ''You are Verba, The Golden RAGtriever, a chatbot for Retrieval Augmented Generation (RAG). You will receive a user query and context pieces that have a semantic similarity to that specific query. Please answer these user queries only their provided context. If the provided documentation does not provide enough information, say so. If the user asks questions about you as a chatbot specifially, answer them naturally. If the answer requires code examples encapsulate them with ```programming-language-name ```. Don't do pseudo-code.''"

text \<open>
  \<^verbatim>\<open>prepare_messages\<close>, statement by statement: the list starts with the system entry, the
  loop appends one entry per conversation turn, and the user entry is appended last.
  \<^verbatim>\<open>self\<close> is not read.
\<close>

definition prepare_messages ::
  "string list \<Rightarrow> string list \<Rightarrow> conversation_item list \<Rightarrow> message list" where
  "prepare_messages queries context conversation =
     (let messages0 = [\<lparr> role = ''system'', content = system_content \<rparr>];
          messages1 = fold (\<lambda>message messages.
                              messages @ [\<lparr> role = type message, content = content_attr message \<rparr>])
                        conversation messages0;
          query = join '' '' queries;
          user_context = join '' '' context
      in messages1 @
           [\<lparr> role = ''user'',
              content = ''Please answer this query: '' @ [CHR 0x27] @ query @ [CHR 0x27]
                        @ '' with this provided context: '' @ user_context \<rparr>])"

section \<open>The streaming loop\<close>

text \<open>
  The body of \<^verbatim>\<open>while True\<close> in \<^verbatim>\<open>generate_stream\<close>, run to the end of the stream. The
  result is the list of yielded dicts together with the exception that leaves the inner
  \<^verbatim>\<open>try\<close>, if any: \<^verbatim>\<open>StopAsyncIteration\<close> is caught there and ends the generator
  normally; every other exception leaves it.
\<close>

definition yield ::
  "token_event \<Rightarrow> token_event list \<times> py_exception option
     \<Rightarrow> token_event list \<times> py_exception option" where
  "yield ev later = (ev # fst later, snd later)"

fun completion_loop :: "anext_result list \<Rightarrow> token_event list \<times> py_exception option" where
  "completion_loop [] = ([], None)"
| "completion_loop (Raise e # rest) =
     (if e = StopAsyncIteration then ([], None) else ([], Some e))"
| "completion_loop (Chunk chunk # rest) =
     (if length (choices chunk) > 0 then
        (case delta (choices chunk ! 0) ''content'' of
           Some fragment \<Rightarrow>
             yield \<lparr> message = fragment,
                     finish_reason = choice_finish_reason (choices chunk ! 0) \<rparr>
               (completion_loop rest)
         | None \<Rightarrow>
             yield \<lparr> message = PyStr [],
                     finish_reason = choice_finish_reason (choices chunk ! 0) \<rparr>
               (completion_loop rest))
      else completion_loop rest)"

section \<open>The streaming operation\<close>

text \<open>
  \<^verbatim>\<open>generate_stream\<close> has a \<^verbatim>\<open>yield\<close> in an \<^verbatim>\<open>async def\<close>, so it is an asynchronous
  generator. Python turns a \<^verbatim>\<open>StopIteration\<close> and a \<^verbatim>\<open>StopAsyncIteration\<close> that leave the
  body of an asynchronous generator into a \<^verbatim>\<open>RuntimeError\<close>; every other exception leaves
  it as it is.
\<close>

definition async_generator_exit :: "py_exception \<Rightarrow> py_exception" where
  "async_generator_exit e =
     (if e = StopIteration
      then RuntimeError ''async generator raised StopIteration''
      else if e = StopAsyncIteration
      then RuntimeError ''async generator raised StopAsyncIteration''
      else e)"

text \<open>
  \<^verbatim>\<open>generate_stream\<close>: the prompt is composed, \<^verbatim>\<open>openai\<close> is imported, its module fields
  are set from the environment, the request is built and opened, and the loop runs. The outer
  \<^verbatim>\<open>except Exception: raise\<close> re-raises what it catches, so an exception of any step
  leaves the body.
\<close>

definition generate_stream ::
  "generator \<Rightarrow> world \<Rightarrow> string list \<Rightarrow> string list \<Rightarrow> conversation_item list option
     \<Rightarrow> stream_outcome" where
  "generate_stream self w queries context conversation =
     (let conversation = (case conversation of None \<Rightarrow> [] | Some c \<Rightarrow> c);
          messages = prepare_messages queries context conversation
      in case openai_import w of
           Inl e \<Rightarrow>
             \<lparr> events = [], raised = Some (async_generator_exit e), requests_opened = [],
               openai_after = None \<rparr>
         | Inr openai0 \<Rightarrow>
             (let openai1 = openai0 \<lparr> api_key := environ w ''OPENAI_API_KEY'' \<rparr>;
                  base_url = getenv_default (environ w) ''OPENAI_BASE_URL'' [];
                  openai2 = (if base_url \<noteq> [] then openai1 \<lparr> api_base := base_url \<rparr>
                             else openai1);
                  openai3 = (case environ w ''OPENAI_API_TYPE'' of
                               Some v \<Rightarrow> openai2 \<lparr> api_type := v \<rparr>
                             | None \<Rightarrow> openai2);
                  openai4 = (case environ w ''OPENAI_API_BASE'' of
                               Some v \<Rightarrow> openai3 \<lparr> api_base := v \<rparr>
                             | None \<Rightarrow> openai3);
                  openai5 = (case environ w ''OPENAI_API_VERSION'' of
                               Some v \<Rightarrow> openai4 \<lparr> api_version := Some v \<rparr>
                             | None \<Rightarrow> openai4);
                  arguments0 = \<lparr> model = model_name self,
                                 messages = messages,
                                 stream = Some True,
                                 temperature = Some 0.0,
                                 deployment_id = None \<rparr>;
                  chat_completion_arguments =
                    (if api_type openai5 = ''azure''
                     then arguments0 \<lparr> deployment_id := Some (model_name self) \<rparr>
                     else arguments0)
              in case ChatCompletion_acreate w openai5 chat_completion_arguments of
                   Inl e \<Rightarrow>
                     \<lparr> events = [], raised = Some (async_generator_exit e),
                       requests_opened = [chat_completion_arguments],
                       openai_after = Some openai5 \<rparr>
                 | Inr completion \<Rightarrow>
                     \<lparr> events = fst (completion_loop completion),
                       raised = map_option async_generator_exit
                                  (snd (completion_loop completion)),
                       requests_opened = [chat_completion_arguments],
                       openai_after = Some openai5 \<rparr>))"

section \<open>The blocking operation\<close>

text \<open>
  The names bound at module level, from the import statements and the class statement at the
  top of the file. A name that a function body reads without binding it is looked up here
  (and then among the builtins, which have no \<^verbatim>\<open>openai\<close>).
  \<^verbatim>\<open>import openai\<close> stands inside \<^verbatim>\<open>generate_stream\<close>, where it binds a local name of that
  function only.
\<close>

definition module_globals :: "string list" where
  "module_globals =
     [''asyncio'', ''os'', ''Iterator'', ''vertexai'', ''GenerativeModel'', ''load_dotenv'',
      ''Generator'', ''GPT4Generator'']"

definition load_global :: "string \<Rightarrow> py_exception + unit" where
  "load_global n = (if n \<in> set module_globals then Inr () else Inl (NameError n))"

text \<open>
  \<^verbatim>\<open>generate\<close> is an \<^verbatim>\<open>async def\<close> without \<^verbatim>\<open>yield\<close>, a coroutine. Python turns a
  \<^verbatim>\<open>StopIteration\<close> that leaves the body of a coroutine into a \<^verbatim>\<open>RuntimeError\<close>; every
  other exception leaves it as it is.
\<close>

definition coroutine_exit :: "py_exception \<Rightarrow> py_exception" where
  "coroutine_exit e =
     (if e = StopIteration then RuntimeError ''coroutine raised StopIteration'' else e)"

text \<open>Python's \<^verbatim>\<open>str\<close> on a value that is \<^verbatim>\<open>None\<close> or a string.\<close>

fun str :: "pyval \<Rightarrow> string" where
  "str PyNone = ''None''"
| "str (PyStr s) = s"

text \<open>
  \<^verbatim>\<open>generate\<close>. Its body reads the name \<^verbatim>\<open>openai\<close> and never binds it, so the read is a
  lookup among the module's names. The branch after a successful lookup takes the module that
  \<^verbatim>\<open>import openai\<close> gives. The \<^verbatim>\<open>except Exception: raise\<close> re-raises what it catches,
  so an exception of any step leaves the body.
\<close>

definition generate ::
  "generator \<Rightarrow> world \<Rightarrow> string list \<Rightarrow> string list \<Rightarrow> conversation_item list option
     \<Rightarrow> blocking_outcome" where
  "generate self w queries context conversation =
     (let conversation = (case conversation of None \<Rightarrow> [] | Some c \<Rightarrow> c);
          messages = prepare_messages queries context conversation;
          project_id = environ w ''GOOGLE_CLOUD_PROJECT'';
          REGION = ''us-central1''
      in case vertexai_init w project_id REGION of
           Some e \<Rightarrow> \<lparr> returned = Inl (coroutine_exit e), requests_sent = [] \<rparr>
         | None \<Rightarrow>
             (let arguments0 = \<lparr> model = model_name self,
                                  messages = messages,
                                  stream = None,
                                  temperature = None,
                                  deployment_id = None \<rparr>
              in case load_global ''openai'' of
                   Inl e \<Rightarrow> \<lparr> returned = Inl (coroutine_exit e), requests_sent = [] \<rparr>
                 | Inr _ \<Rightarrow>
                     (case openai_import w of
                        Inl e \<Rightarrow> \<lparr> returned = Inl (coroutine_exit e), requests_sent = [] \<rparr>
                      | Inr openai0 \<Rightarrow>
                          (let chat_completion_arguments =
                                 (if api_type openai0 = ''azure''
                                  then arguments0 \<lparr> deployment_id := Some (model_name self) \<rparr>
                                  else arguments0);
                               base_url = getenv_default (environ w) ''OPENAI_BASE_URL'' [];
                               openai1 = (if base_url \<noteq> []
                                          then openai0 \<lparr> api_base := base_url \<rparr>
                                          else openai0)
                           in case ChatCompletion_create w openai1 chat_completion_arguments of
                                Inl e \<Rightarrow>
                                  \<lparr> returned = Inl (coroutine_exit e),
                                    requests_sent = [chat_completion_arguments] \<rparr>
                              | Inr completion \<Rightarrow>
                                  (case completion_choices completion of
                                     [] \<Rightarrow>
                                       \<lparr> returned = Inl (coroutine_exit IndexError),
                                         requests_sent = [chat_completion_arguments] \<rparr>
                                   | c # _ \<Rightarrow>
                                       \<lparr> returned = Inr (str (message_content c)),
                                         requests_sent = [chat_completion_arguments] \<rparr>)))))"

text \<open>
  The spec's wording of the joined string: the elements in order, a single space between
  neighbours.
\<close>

definition joined_with_single_spaces :: "string list \<Rightarrow> string" where
  "joined_with_single_spaces xs =
     (case xs of [] \<Rightarrow> [] | x # rest \<Rightarrow> x @ concat (map (\<lambda>y. '' '' @ y) rest))"

section \<open>The composer on a store of objects\<close>

text \<open>
  Python passes lists by reference and \<^verbatim>\<open>list.append\<close> changes a list in place. To say what
  \<^verbatim>\<open>prepare_messages\<close> does to the objects it is given, the lists live in a store: a
  reference is an index into the store, \<^verbatim>\<open>messages = [...]\<close> allocates a new object at the
  end of the store, and \<^verbatim>\<open>messages.append(x)\<close> updates the object that \<^verbatim>\<open>messages\<close> refers
  to. A list object holds strings, conversation turns or prompt entries.
\<close>

datatype pyobject =
    StrList "string list"
  | ItemList "conversation_item list"
  | DictList "message list"

type_synonym store = "pyobject list"

definition deref :: "store \<Rightarrow> nat \<Rightarrow> pyobject option" where
  "deref s a = (if a < length s then Some (s ! a) else None)"

definition new_list :: "store \<Rightarrow> message list \<Rightarrow> nat \<times> store" where
  "new_list s ms = (length s, s @ [DictList ms])"

definition list_append :: "store \<Rightarrow> nat \<Rightarrow> message \<Rightarrow> store" where
  "list_append s a x =
     (case deref s a of
        Some (DictList ms) \<Rightarrow> s[a := DictList (ms @ [x])]
      | _ \<Rightarrow> s)"

text \<open>
  What the loop \<^verbatim>\<open>for message in conversation\<close> with its reads of \<^verbatim>\<open>message.type\<close> and
  \<^verbatim>\<open>message.content\<close> sees: an empty list of any kind gives no iteration; a string or a
  dict has no attribute \<^verbatim>\<open>type\<close>. And what \<^verbatim>\<open>" ".join(xs)\<close> accepts: an empty list of any
  kind, or strings. A reference always denotes a live object in Python; a reference outside
  the store is reported as an error of the model.
\<close>

fun items_of :: "pyobject option \<Rightarrow> py_exception + conversation_item list" where
  "items_of (Some (ItemList xs)) = Inr xs"
| "items_of (Some (StrList [])) = Inr []"
| "items_of (Some (DictList [])) = Inr []"
| "items_of (Some _) = Inl (AttributeError ''type'')"
| "items_of None = Inl (RuntimeError ''reference outside the store'')"

fun strings_of :: "pyobject option \<Rightarrow> py_exception + string list" where
  "strings_of (Some (StrList xs)) = Inr xs"
| "strings_of (Some (ItemList [])) = Inr []"
| "strings_of (Some (DictList [])) = Inr []"
| "strings_of (Some _) = Inl TypeError"
| "strings_of None = Inl (RuntimeError ''reference outside the store'')"

text \<open>
  \<^verbatim>\<open>prepare_messages\<close> on references. The list iterator of the loop reads the conversation
  object, which no statement of the loop writes, so its elements are read once. The result is
  the reference to the new list, or the exception, together with the store after the call.
\<close>

definition prepare_messages_in_store ::
  "store \<Rightarrow> nat \<Rightarrow> nat \<Rightarrow> nat \<Rightarrow> (py_exception + nat) \<times> store" where
  "prepare_messages_in_store s queries context conversation =
     (let (messages, s1) = new_list s [\<lparr> role = ''system'', content = system_content \<rparr>]
      in case items_of (deref s1 conversation) of
           Inl e \<Rightarrow> (Inl e, s1)
         | Inr items \<Rightarrow>
             (let s2 = fold (\<lambda>message s'.
                               list_append s' messages
                                 \<lparr> role = type message, content = content_attr message \<rparr>)
                         items s1
              in case strings_of (deref s2 queries) of
                   Inl e \<Rightarrow> (Inl e, s2)
                 | Inr qs \<Rightarrow>
                     (let query = join '' '' qs
                      in case strings_of (deref s2 context) of
                           Inl e \<Rightarrow> (Inl e, s2)
                         | Inr cs \<Rightarrow>
                             (let user_context = join '' '' cs
                              in (Inr messages,
                                  list_append s2 messages
                                    \<lparr> role = ''user'',
                                      content = ''Please answer this query: '' @ [CHR 0x27]
                                                @ query @ [CHR 0x27]
                                                @ '' with this provided context: ''
                                                @ user_context \<rparr>)))))"

section \<open>Scripted collaborators\<close>

text \<open>
  The module fields of a freshly imported \<^verbatim>\<open>openai\<close> package in a process whose
  environment sets none of them, and a world in which the packages are installed,
  \<^verbatim>\<open>vertexai.init\<close> succeeds and the backend answers every request with a scripted response.
\<close>

definition default_openai :: openai_module where
  "default_openai =
     \<lparr> api_key = None, api_base = ''https://api.openai.com/v1'', api_type = ''open_ai'',
       api_version = None \<rparr>"

definition scripted_world ::
  "(string \<rightharpoonup> string) \<Rightarrow> openai_module \<Rightarrow> py_exception + completion
     \<Rightarrow> py_exception + anext_result list \<Rightarrow> world" where
  "scripted_world env m blocking streaming =
     \<lparr> environ = env,
       openai_import = Inr m,
       vertexai_init = (\<lambda>project location. None),
       ChatCompletion_create = (\<lambda>module arguments. blocking),
       ChatCompletion_acreate = (\<lambda>module arguments. streaming) \<rparr>"

definition content_chunk :: "string \<Rightarrow> pyval \<Rightarrow> chunk" where
  "content_chunk fragment reason =
     \<lparr> choices = [\<lparr> delta = [''content'' \<mapsto> PyStr fragment],
                     choice_finish_reason = reason \<rparr>] \<rparr>"

section \<open>Properties of the composer\<close>

lemma fold_append_entries:
  "fold (\<lambda>message messages. messages @ [f message]) conversation acc
     = acc @ map f conversation"
  by (induction conversation arbitrary: acc) simp_all

lemma prepare_messages_eq:
  "prepare_messages queries context conversation =
     \<lparr> role = ''system'', content = system_content \<rparr>
     # map (\<lambda>m. \<lparr> role = type m, content = content_attr m \<rparr>) conversation
     @ [\<lparr> role = ''user'',
          content = ''Please answer this query: '' @ [CHR 0x27] @ join '' '' queries @ [CHR 0x27]
                    @ '' with this provided context: '' @ join '' '' context \<rparr>]"
  unfolding prepare_messages_def Let_def
  by (simp only: fold_append_entries append_Cons append_Nil)

lemma join_spaces: "join '' '' xs = joined_with_single_spaces xs"
proof (induction "'' ''" xs rule: join.induct)
  case 1
  show ?case by (simp add: joined_with_single_spaces_def)
next
  case (2 x)
  show ?case by (simp add: joined_with_single_spaces_def)
next
  case (3 x y ys)
  then show ?case by (simp add: joined_with_single_spaces_def)
qed

text \<open>
  C1. For non-empty queries and context, the composed prompt has length
  2 + |conversation|, its first entry has role system, its last entry has role user, and the
  entries between them are the conversation turns, role and content, in their order.
\<close>

theorem prepare_messages_shape:
  assumes "queries \<noteq> []" and "context \<noteq> []"
  shows "length (prepare_messages queries context conversation) = 2 + length conversation
       \<and> role (hd (prepare_messages queries context conversation)) = ''system''
       \<and> role (last (prepare_messages queries context conversation)) = ''user''
       \<and> butlast (tl (prepare_messages queries context conversation))
           = map (\<lambda>m. \<lparr> role = type m, content = content_attr m \<rparr>) conversation"
  by (simp add: prepare_messages_eq)

theorem prepare_messages_shape_witness:
  "[''What is X?''] \<noteq> [] \<and> [''X is a protocol.''] \<noteq> []
   \<and> length (prepare_messages [''What is X?''] [''X is a protocol.'']
        [\<lparr> type = ''user'', content_attr = ''hi'' \<rparr>,
         \<lparr> type = ''assistant'', content_attr = ''hello'' \<rparr>]) = 4
   \<and> butlast (tl (prepare_messages [''What is X?''] [''X is a protocol.'']
        [\<lparr> type = ''user'', content_attr = ''hi'' \<rparr>,
         \<lparr> type = ''assistant'', content_attr = ''hello'' \<rparr>]))
       = [\<lparr> role = ''user'', content = ''hi'' \<rparr>, \<lparr> role = ''assistant'', content = ''hello'' \<rparr>]"
  using prepare_messages_shape [of "[''What is X?'']" "[''X is a protocol.'']"
          "[\<lparr> type = ''user'', content_attr = ''hi'' \<rparr>,
            \<lparr> type = ''assistant'', content_attr = ''hello'' \<rparr>]"]
  by simp

text \<open>
  C2. The content of the final user entry is the fixed template around the queries joined
  with single spaces and the context joined with single spaces, every element kept, in order.
\<close>

theorem prepare_messages_user_content:
  "last (prepare_messages queries context conversation) =
     \<lparr> role = ''user'',
       content = ''Please answer this query: '' @ [CHR 0x27]
                 @ joined_with_single_spaces queries @ [CHR 0x27]
                 @ '' with this provided context: '' @ joined_with_single_spaces context \<rparr>"
  by (simp add: prepare_messages_eq join_spaces)

text \<open>
  C3. Composing with empty queries, empty context and empty conversation gives a prompt of
  two entries, the system entry and a user entry whose template holds two empty strings.
\<close>

theorem prepare_messages_empty:
  "prepare_messages [] [] [] =
     [\<lparr> role = ''system'', content = system_content \<rparr>,
      \<lparr> role = ''user'',
        content = ''Please answer this query: '' @ [CHR 0x27] @ [] @ [CHR 0x27]
                  @ '' with this provided context: '' @ [] \<rparr>]"
  by (simp add: prepare_messages_eq)

section \<open>Properties of the streaming operation\<close>

lemma completion_loop_chunks_then:
  "completion_loop (map Chunk cs @ rest) =
     (fst (completion_loop (map Chunk cs)) @ fst (completion_loop rest),
      snd (completion_loop rest))"
  by (induction cs) (simp_all add: yield_def split: option.split)

lemma completion_loop_chunks_complete: "snd (completion_loop (map Chunk cs)) = None"
  by (induction cs) (simp_all add: yield_def split: option.split)

text \<open>
  C4. A received chunk whose list of choices is empty yields no event, wherever it stands in
  the stream: the events are those of the chunks before it followed by those of the rest of
  the stream, and the stream ends as the rest of the stream ends.
\<close>

theorem empty_choices_chunk_skipped:
  assumes "choices c = []"
  shows "completion_loop (map Chunk before @ Chunk c # rest) =
           (fst (completion_loop (map Chunk before)) @ fst (completion_loop rest),
            snd (completion_loop rest))"
  using assms by (simp add: completion_loop_chunks_then [of before "Chunk c # rest"])

theorem empty_choices_chunk_skipped_witness:
  "choices \<lparr> choices = [] \<rparr> = []
   \<and> completion_loop
        [Chunk \<lparr> choices = [] \<rparr>,
         Chunk \<lparr> choices = [\<lparr> delta = [''content'' \<mapsto> PyStr ''Hel''],
                              choice_finish_reason = PyStr [] \<rparr>] \<rparr>,
         Chunk \<lparr> choices = [\<lparr> delta = [''content'' \<mapsto> PyStr ''lo''],
                              choice_finish_reason = PyStr ''stop'' \<rparr>] \<rparr>]
       = ([\<lparr> message = PyStr ''Hel'', finish_reason = PyStr [] \<rparr>,
           \<lparr> message = PyStr ''lo'', finish_reason = PyStr ''stop'' \<rparr>], None)"
  using empty_choices_chunk_skipped [of "\<lparr> choices = [] \<rparr>" "[]"
    "[Chunk \<lparr> choices = [\<lparr> delta = [''content'' \<mapsto> PyStr ''Hel''],
                              choice_finish_reason = PyStr [] \<rparr>] \<rparr>,
      Chunk \<lparr> choices = [\<lparr> delta = [''content'' \<mapsto> PyStr ''lo''],
                              choice_finish_reason = PyStr ''stop'' \<rparr>] \<rparr>]"]
  by (simp add: yield_def)

text \<open>
  C5. A received chunk with at least one choice yields exactly one event, in its place in the
  stream. Its finish reason is the one of the chunk's first choice. Its message is the value
  under the key content of the first choice's delta when the delta has that key, and the
  empty string when it has not.
\<close>

theorem chunk_with_choice_yields_one_event:
  assumes "choices c \<noteq> []"
  shows "completion_loop (map Chunk before @ Chunk c # rest) =
           (fst (completion_loop (map Chunk before))
              @ [\<lparr> message = (case delta (hd (choices c)) ''content'' of
                                None \<Rightarrow> PyStr []
                              | Some fragment \<Rightarrow> fragment),
                    finish_reason = choice_finish_reason (hd (choices c)) \<rparr>]
              @ fst (completion_loop rest),
            snd (completion_loop rest))"
  using assms
  by (simp add: completion_loop_chunks_then [of before "Chunk c # rest"] yield_def hd_conv_nth
           split: option.split)

theorem chunk_with_choice_yields_one_event_witness:
  "choices \<lparr> choices = [\<lparr> delta = [''role'' \<mapsto> PyStr ''assistant''],
                           choice_finish_reason = PyStr ''stop'' \<rparr>] \<rparr> \<noteq> []
   \<and> completion_loop
        [Chunk \<lparr> choices = [\<lparr> delta = [''content'' \<mapsto> PyStr ''Hel''],
                              choice_finish_reason = PyNone \<rparr>] \<rparr>,
         Chunk \<lparr> choices = [\<lparr> delta = [''role'' \<mapsto> PyStr ''assistant''],
                              choice_finish_reason = PyStr ''stop'' \<rparr>] \<rparr>]
       = ([\<lparr> message = PyStr ''Hel'', finish_reason = PyNone \<rparr>,
           \<lparr> message = PyStr [], finish_reason = PyStr ''stop'' \<rparr>], None)"
  using chunk_with_choice_yields_one_event
    [of "\<lparr> choices = [\<lparr> delta = [''role'' \<mapsto> PyStr ''assistant''],
                          choice_finish_reason = PyStr ''stop'' \<rparr>] \<rparr>"
        "[\<lparr> choices = [\<lparr> delta = [''content'' \<mapsto> PyStr ''Hel''],
                          choice_finish_reason = PyNone \<rparr>] \<rparr>]" "[]"]
  by (simp add: yield_def)

lemma generate_stream_after_import:
  assumes "openai_import w = Inr installed"
  shows "\<exists>m a. generate_stream self w queries context conversation =
           (case ChatCompletion_acreate w m a of
              Inl e \<Rightarrow>
                \<lparr> events = [], raised = Some (async_generator_exit e),
                  requests_opened = [a], openai_after = Some m \<rparr>
            | Inr completion \<Rightarrow>
                \<lparr> events = fst (completion_loop completion),
                  raised = map_option async_generator_exit (snd (completion_loop completion)),
                  requests_opened = [a], openai_after = Some m \<rparr>)
         \<and> a = \<lparr> model = model_name self,
                 messages = prepare_messages queries context
                              (case conversation of None \<Rightarrow> [] | Some c \<Rightarrow> c),
                 stream = Some True,
                 temperature = Some 0.0,
                 deployment_id =
                   (if getenv_default (environ w) ''OPENAI_API_TYPE'' (api_type installed)
                         = ''azure''
                    then Some (model_name self) else None) \<rparr>"
proof -
  define openai2 where
    "openai2 = (if getenv_default (environ w) ''OPENAI_BASE_URL'' [] \<noteq> []
                then installed \<lparr> api_key := environ w ''OPENAI_API_KEY'' \<rparr>
                       \<lparr> api_base := getenv_default (environ w) ''OPENAI_BASE_URL'' [] \<rparr>
                else installed \<lparr> api_key := environ w ''OPENAI_API_KEY'' \<rparr>)"
  define openai3 where
    "openai3 = (case environ w ''OPENAI_API_TYPE'' of
                  Some v \<Rightarrow> openai2 \<lparr> api_type := v \<rparr>
                | None \<Rightarrow> openai2)"
  define openai4 where
    "openai4 = (case environ w ''OPENAI_API_BASE'' of
                  Some v \<Rightarrow> openai3 \<lparr> api_base := v \<rparr>
                | None \<Rightarrow> openai3)"
  define m where
    "m = (case environ w ''OPENAI_API_VERSION'' of
            Some v \<Rightarrow> openai4 \<lparr> api_version := Some v \<rparr>
          | None \<Rightarrow> openai4)"
  define a where
    "a = (if api_type m = ''azure''
          then \<lparr> model = model_name self,
                 messages = prepare_messages queries context
                              (case conversation of None \<Rightarrow> [] | Some c \<Rightarrow> c),
                 stream = Some True,
                 temperature = Some 0.0,
                 deployment_id = None \<rparr> \<lparr> deployment_id := Some (model_name self) \<rparr>
          else \<lparr> model = model_name self,
                 messages = prepare_messages queries context
                              (case conversation of None \<Rightarrow> [] | Some c \<Rightarrow> c),
                 stream = Some True,
                 temperature = Some 0.0,
                 deployment_id = None \<rparr>)"
  have t2: "api_type openai2 = api_type installed"
    by (simp add: openai2_def)
  have t3: "api_type openai3 = getenv_default (environ w) ''OPENAI_API_TYPE'' (api_type installed)"
    by (simp add: openai3_def t2 getenv_default_def split: option.split)
  have t4: "api_type openai4 = api_type openai3"
    by (simp add: openai4_def split: option.split)
  have t: "api_type m = getenv_default (environ w) ''OPENAI_API_TYPE'' (api_type installed)"
    by (simp add: m_def t4 t3 split: option.split)
  have run: "generate_stream self w queries context conversation =
          (case ChatCompletion_acreate w m a of
             Inl e \<Rightarrow>
               \<lparr> events = [], raised = Some (async_generator_exit e),
                 requests_opened = [a], openai_after = Some m \<rparr>
           | Inr completion \<Rightarrow>
               \<lparr> events = fst (completion_loop completion),
                 raised = map_option async_generator_exit (snd (completion_loop completion)),
                 requests_opened = [a], openai_after = Some m \<rparr>)"
    unfolding generate_stream_def a_def m_def openai4_def openai3_def openai2_def Let_def
    by (simp only: assms sum.case)
  have args: "a = \<lparr> model = model_name self,
                 messages = prepare_messages queries context
                              (case conversation of None \<Rightarrow> [] | Some c \<Rightarrow> c),
                 stream = Some True,
                 temperature = Some 0.0,
                 deployment_id =
                   (if getenv_default (environ w) ''OPENAI_API_TYPE'' (api_type installed)
                         = ''azure''
                    then Some (model_name self) else None) \<rparr>"
    unfolding a_def t by simp
  from run args show ?thesis by blast
qed


text \<open>
  C6, as the claim states it, fails: a StopIteration that the backend raises during streaming
  is not the end-of-stream signal, and it does not reach the caller unchanged. It leaves the
  asynchronous generator as a RuntimeError.
\<close>

theorem generate_stream_stop_iteration_counterexample:
  "StopIteration \<noteq> StopAsyncIteration
   \<and> raised (generate_stream (init Map.empty)
        (scripted_world Map.empty default_openai (Inl IndexError)
           (Inr [Chunk (content_chunk ''Hel'' PyNone), Raise StopIteration]))
        [''What is X?''] [''X is a protocol.''] None)
       = Some (RuntimeError ''async generator raised StopIteration'')
   \<and> raised (generate_stream (init Map.empty)
        (scripted_world Map.empty default_openai (Inl IndexError)
           (Inr [Chunk (content_chunk ''Hel'' PyNone), Raise StopIteration]))
        [''What is X?''] [''X is a protocol.''] None)
       \<noteq> Some StopIteration"
proof -
  let ?w = "scripted_world Map.empty default_openai (Inl IndexError)
              (Inr [Chunk (content_chunk ''Hel'' PyNone), Raise StopIteration])"
  have imp: "openai_import ?w = Inr default_openai"
    by (simp add: scripted_world_def)
  have backend: "ChatCompletion_acreate ?w m a
                   = Inr [Chunk (content_chunk ''Hel'' PyNone), Raise StopIteration]" for m a
    by (simp add: scripted_world_def)
  from generate_stream_after_import
         [OF imp, of "init Map.empty" "[''What is X?'']" "[''X is a protocol.'']" None]
  obtain m a where
    "generate_stream (init Map.empty) ?w [''What is X?''] [''X is a protocol.''] None =
           (case ChatCompletion_acreate ?w m a of
              Inl e \<Rightarrow>
                \<lparr> events = [], raised = Some (async_generator_exit e),
                  requests_opened = [a], openai_after = Some m \<rparr>
            | Inr completion \<Rightarrow>
                \<lparr> events = fst (completion_loop completion),
                  raised = map_option async_generator_exit (snd (completion_loop completion)),
                  requests_opened = [a], openai_after = Some m \<rparr>)"
    by blast
  then have "raised (generate_stream (init Map.empty) ?w
                       [''What is X?''] [''X is a protocol.''] None)
               = Some (RuntimeError ''async generator raised StopIteration'')"
    unfolding backend
    by (simp add: content_chunk_def yield_def async_generator_exit_def)
  then show ?thesis by simp
qed

text \<open>
  C6, amended. When the import of the backend package succeeds, the call opens one request,
  with the module configuration the call leaves behind. If the backend answers it with a
  stream of chunks that ends, or that signals its end by StopAsyncIteration, the call ends
  without an exception after the events of the chunks. If the backend raises an exception
  other than StopAsyncIteration and StopIteration after some chunks, or when the request is
  opened, that exception is the exception of the call, unchanged, after the events of the
  chunks received before it. A StopIteration raised after some chunks or when the request is
  opened, and a StopAsyncIteration raised when the request is opened, reach the caller as the
  RuntimeError that Python makes of them when they leave an asynchronous generator.
\<close>

theorem generate_stream_termination_and_propagation:
  assumes "openai_import w = Inr installed"
  shows "\<exists>m a.
           requests_opened (generate_stream self w queries context conversation) = [a]
         \<and> openai_after (generate_stream self w queries context conversation) = Some m
         \<and> (\<forall>cs. ChatCompletion_acreate w m a = Inr (map Chunk cs) \<longrightarrow>
                raised (generate_stream self w queries context conversation) = None
              \<and> events (generate_stream self w queries context conversation)
                  = fst (completion_loop (map Chunk cs)))
         \<and> (\<forall>cs rest.
                ChatCompletion_acreate w m a
                  = Inr (map Chunk cs @ Raise StopAsyncIteration # rest) \<longrightarrow>
                raised (generate_stream self w queries context conversation) = None
              \<and> events (generate_stream self w queries context conversation)
                  = fst (completion_loop (map Chunk cs)))
         \<and> (\<forall>cs e rest.
                ChatCompletion_acreate w m a = Inr (map Chunk cs @ Raise e # rest)
                \<and> e \<noteq> StopAsyncIteration \<and> e \<noteq> StopIteration \<longrightarrow>
                raised (generate_stream self w queries context conversation) = Some e
              \<and> events (generate_stream self w queries context conversation)
                  = fst (completion_loop (map Chunk cs)))
         \<and> (\<forall>cs rest.
                ChatCompletion_acreate w m a
                  = Inr (map Chunk cs @ Raise StopIteration # rest) \<longrightarrow>
                raised (generate_stream self w queries context conversation)
                  = Some (RuntimeError ''async generator raised StopIteration'')
              \<and> events (generate_stream self w queries context conversation)
                  = fst (completion_loop (map Chunk cs)))
         \<and> (\<forall>e. ChatCompletion_acreate w m a = Inl e
                \<and> e \<noteq> StopAsyncIteration \<and> e \<noteq> StopIteration \<longrightarrow>
                raised (generate_stream self w queries context conversation) = Some e
              \<and> events (generate_stream self w queries context conversation) = [])
         \<and> (ChatCompletion_acreate w m a = Inl StopIteration \<longrightarrow>
                raised (generate_stream self w queries context conversation)
                  = Some (RuntimeError ''async generator raised StopIteration'')
              \<and> events (generate_stream self w queries context conversation) = [])
         \<and> (ChatCompletion_acreate w m a = Inl StopAsyncIteration \<longrightarrow>
                raised (generate_stream self w queries context conversation)
                  = Some (RuntimeError ''async generator raised StopAsyncIteration'')
              \<and> events (generate_stream self w queries context conversation) = [])"
proof -
  from generate_stream_after_import [OF assms, of self queries "context" conversation]
  obtain m a where
    out: "generate_stream self w queries context conversation =
           (case ChatCompletion_acreate w m a of
              Inl e \<Rightarrow>
                \<lparr> events = [], raised = Some (async_generator_exit e),
                  requests_opened = [a], openai_after = Some m \<rparr>
            | Inr completion \<Rightarrow>
                \<lparr> events = fst (completion_loop completion),
                  raised = map_option async_generator_exit (snd (completion_loop completion)),
                  requests_opened = [a], openai_after = Some m \<rparr>)"
    by blast
  have "requests_opened (generate_stream self w queries context conversation) = [a]"
    and "openai_after (generate_stream self w queries context conversation) = Some m"
    unfolding out by (cases "ChatCompletion_acreate w m a"; simp)+
  moreover have "\<forall>cs. ChatCompletion_acreate w m a = Inr (map Chunk cs) \<longrightarrow>
                raised (generate_stream self w queries context conversation) = None
              \<and> events (generate_stream self w queries context conversation)
                  = fst (completion_loop (map Chunk cs))"
    unfolding out by (simp add: completion_loop_chunks_complete)
  moreover have "\<forall>cs rest.
                ChatCompletion_acreate w m a
                  = Inr (map Chunk cs @ Raise StopAsyncIteration # rest) \<longrightarrow>
                raised (generate_stream self w queries context conversation) = None
              \<and> events (generate_stream self w queries context conversation)
                  = fst (completion_loop (map Chunk cs))"
    unfolding out
    by (simp add: completion_loop_chunks_then [where rest = "Raise e # rest" for e rest])
  moreover have "\<forall>cs e rest.
                ChatCompletion_acreate w m a = Inr (map Chunk cs @ Raise e # rest)
                \<and> e \<noteq> StopAsyncIteration \<and> e \<noteq> StopIteration \<longrightarrow>
                raised (generate_stream self w queries context conversation) = Some e
              \<and> events (generate_stream self w queries context conversation)
                  = fst (completion_loop (map Chunk cs))"
    unfolding out
    by (simp add: completion_loop_chunks_then [where rest = "Raise e # rest" for e rest]
          async_generator_exit_def)
  moreover have "\<forall>cs rest.
                ChatCompletion_acreate w m a
                  = Inr (map Chunk cs @ Raise StopIteration # rest) \<longrightarrow>
                raised (generate_stream self w queries context conversation)
                  = Some (RuntimeError ''async generator raised StopIteration'')
              \<and> events (generate_stream self w queries context conversation)
                  = fst (completion_loop (map Chunk cs))"
    unfolding out
    by (simp add: completion_loop_chunks_then [where rest = "Raise e # rest" for e rest]
          async_generator_exit_def)
  moreover have "\<forall>e. ChatCompletion_acreate w m a = Inl e
                \<and> e \<noteq> StopAsyncIteration \<and> e \<noteq> StopIteration \<longrightarrow>
                raised (generate_stream self w queries context conversation) = Some e
              \<and> events (generate_stream self w queries context conversation) = []"
    unfolding out by (simp add: async_generator_exit_def)
  moreover have "ChatCompletion_acreate w m a = Inl StopIteration \<longrightarrow>
                raised (generate_stream self w queries context conversation)
                  = Some (RuntimeError ''async generator raised StopIteration'')
              \<and> events (generate_stream self w queries context conversation) = []"
    unfolding out by (simp add: async_generator_exit_def)
  moreover have "ChatCompletion_acreate w m a = Inl StopAsyncIteration \<longrightarrow>
                raised (generate_stream self w queries context conversation)
                  = Some (RuntimeError ''async generator raised StopAsyncIteration'')
              \<and> events (generate_stream self w queries context conversation) = []"
    unfolding out by (simp add: async_generator_exit_def)
  ultimately show ?thesis by blast
qed

theorem generate_stream_termination_and_propagation_witness:
  "openai_import (scripted_world Map.empty default_openai (Inl IndexError)
       (Inr (map Chunk [content_chunk ''Hel'' PyNone]
             @ Raise (BackendError ''connection reset'') # []))) = Inr default_openai
   \<and> BackendError ''connection reset'' \<noteq> StopAsyncIteration
   \<and> BackendError ''connection reset'' \<noteq> StopIteration
   \<and> raised (generate_stream (init Map.empty)
        (scripted_world Map.empty default_openai (Inl IndexError)
           (Inr (map Chunk [content_chunk ''Hel'' PyNone]
                 @ Raise (BackendError ''connection reset'') # [])))
        [''What is X?''] [''X is a protocol.''] None) = Some (BackendError ''connection reset'')
   \<and> events (generate_stream (init Map.empty)
        (scripted_world Map.empty default_openai (Inl IndexError)
           (Inr (map Chunk [content_chunk ''Hel'' PyNone]
                 @ Raise (BackendError ''connection reset'') # [])))
        [''What is X?''] [''X is a protocol.''] None)
       = [\<lparr> message = PyStr ''Hel'', finish_reason = PyNone \<rparr>]
   \<and> raised (generate_stream (init Map.empty)
        (scripted_world Map.empty default_openai (Inl IndexError)
           (Inr (map Chunk [content_chunk ''Hel'' PyNone, content_chunk ''lo'' (PyStr ''stop'')])))
        [''What is X?''] [''X is a protocol.''] None) = None
   \<and> events (generate_stream (init Map.empty)
        (scripted_world Map.empty default_openai (Inl IndexError)
           (Inr (map Chunk [content_chunk ''Hel'' PyNone, content_chunk ''lo'' (PyStr ''stop'')])))
        [''What is X?''] [''X is a protocol.''] None)
       = [\<lparr> message = PyStr ''Hel'', finish_reason = PyNone \<rparr>,
          \<lparr> message = PyStr ''lo'', finish_reason = PyStr ''stop'' \<rparr>]
   \<and> raised (generate_stream (init Map.empty)
        (scripted_world Map.empty default_openai (Inl IndexError)
           (Inl (BackendError ''401'')))
        [''What is X?''] [''X is a protocol.''] None) = Some (BackendError ''401'')
   \<and> BackendError ''401'' \<noteq> StopAsyncIteration
   \<and> BackendError ''401'' \<noteq> StopIteration
   \<and> raised (generate_stream (init Map.empty)
        (scripted_world Map.empty default_openai (Inl IndexError)
           (Inr (map Chunk [content_chunk ''Hel'' PyNone]
                 @ Raise StopAsyncIteration # [Chunk (content_chunk ''lo'' PyNone)])))
        [''What is X?''] [''X is a protocol.''] None) = None
   \<and> events (generate_stream (init Map.empty)
        (scripted_world Map.empty default_openai (Inl IndexError)
           (Inr (map Chunk [content_chunk ''Hel'' PyNone]
                 @ Raise StopAsyncIteration # [Chunk (content_chunk ''lo'' PyNone)])))
        [''What is X?''] [''X is a protocol.''] None)
       = [\<lparr> message = PyStr ''Hel'', finish_reason = PyNone \<rparr>]
   \<and> raised (generate_stream (init Map.empty)
        (scripted_world Map.empty default_openai (Inl IndexError)
           (Inr (map Chunk [content_chunk ''Hel'' PyNone] @ Raise StopIteration # [])))
        [''What is X?''] [''X is a protocol.''] None)
       = Some (RuntimeError ''async generator raised StopIteration'')
   \<and> events (generate_stream (init Map.empty)
        (scripted_world Map.empty default_openai (Inl IndexError)
           (Inr (map Chunk [content_chunk ''Hel'' PyNone] @ Raise StopIteration # [])))
        [''What is X?''] [''X is a protocol.''] None)
       = [\<lparr> message = PyStr ''Hel'', finish_reason = PyNone \<rparr>]
   \<and> raised (generate_stream (init Map.empty)
        (scripted_world Map.empty default_openai (Inl IndexError) (Inl StopIteration))
        [''What is X?''] [''X is a protocol.''] None)
       = Some (RuntimeError ''async generator raised StopIteration'')
   \<and> raised (generate_stream (init Map.empty)
        (scripted_world Map.empty default_openai (Inl IndexError) (Inl StopAsyncIteration))
        [''What is X?''] [''X is a protocol.''] None)
       = Some (RuntimeError ''async generator raised StopAsyncIteration'')"
proof -
  let ?failing = "scripted_world Map.empty default_openai (Inl IndexError)
       (Inr (map Chunk [content_chunk ''Hel'' PyNone]
             @ Raise (BackendError ''connection reset'') # []))"
  let ?ending = "scripted_world Map.empty default_openai (Inl IndexError)
       (Inr (map Chunk [content_chunk ''Hel'' PyNone, content_chunk ''lo'' (PyStr ''stop'')]))"
  let ?refusing = "scripted_world Map.empty default_openai (Inl IndexError)
       (Inl (BackendError ''401''))"
  let ?signalled = "scripted_world Map.empty default_openai (Inl IndexError)
       (Inr (map Chunk [content_chunk ''Hel'' PyNone]
             @ Raise StopAsyncIteration # [Chunk (content_chunk ''lo'' PyNone)]))"
  let ?stopping = "scripted_world Map.empty default_openai (Inl IndexError)
       (Inr (map Chunk [content_chunk ''Hel'' PyNone] @ Raise StopIteration # []))"
  let ?open_stop = "scripted_world Map.empty default_openai (Inl IndexError)
       (Inl StopIteration)"
  let ?open_signal = "scripted_world Map.empty default_openai (Inl IndexError)
       (Inl StopAsyncIteration)"
  have i1: "openai_import ?failing = Inr default_openai"
    and i2: "openai_import ?ending = Inr default_openai"
    and i3: "openai_import ?refusing = Inr default_openai"
    and i4: "openai_import ?signalled = Inr default_openai"
    and i5: "openai_import ?stopping = Inr default_openai"
    and i6: "openai_import ?open_stop = Inr default_openai"
    and i7: "openai_import ?open_signal = Inr default_openai"
    by (simp_all add: scripted_world_def)
  have b1: "ChatCompletion_acreate ?failing m a =
              Inr (map Chunk [content_chunk ''Hel'' PyNone]
                   @ Raise (BackendError ''connection reset'') # [])"
    and b2: "ChatCompletion_acreate ?ending m a =
              Inr (map Chunk [content_chunk ''Hel'' PyNone, content_chunk ''lo'' (PyStr ''stop'')])"
    and b3: "ChatCompletion_acreate ?refusing m a = Inl (BackendError ''401'')"
    and b4: "ChatCompletion_acreate ?signalled m a =
              Inr (map Chunk [content_chunk ''Hel'' PyNone]
                   @ Raise StopAsyncIteration # [Chunk (content_chunk ''lo'' PyNone)])"
    and b5: "ChatCompletion_acreate ?stopping m a =
              Inr (map Chunk [content_chunk ''Hel'' PyNone] @ Raise StopIteration # [])"
    and b6: "ChatCompletion_acreate ?open_stop m a = Inl StopIteration"
    and b7: "ChatCompletion_acreate ?open_signal m a = Inl StopAsyncIteration"
    for m a
    by (simp_all add: scripted_world_def)
  have e1: "fst (completion_loop (map Chunk [content_chunk ''Hel'' PyNone]))
              = [\<lparr> message = PyStr ''Hel'', finish_reason = PyNone \<rparr>]"
    and e2: "fst (completion_loop
                    (map Chunk [content_chunk ''Hel'' PyNone, content_chunk ''lo'' (PyStr ''stop'')]))
              = [\<lparr> message = PyStr ''Hel'', finish_reason = PyNone \<rparr>,
                 \<lparr> message = PyStr ''lo'', finish_reason = PyStr ''stop'' \<rparr>]"
    by (simp_all add: content_chunk_def yield_def)
  have n1: "BackendError ''connection reset'' \<noteq> StopAsyncIteration"
           "BackendError ''connection reset'' \<noteq> StopIteration"
    and n3: "BackendError ''401'' \<noteq> StopAsyncIteration"
            "BackendError ''401'' \<noteq> StopIteration"
    by simp_all
  from generate_stream_termination_and_propagation
         [OF i1, of "init Map.empty" "[''What is X?'']" "[''X is a protocol.'']" None]
  have r1: "raised (generate_stream (init Map.empty) ?failing
                     [''What is X?''] [''X is a protocol.''] None)
              = Some (BackendError ''connection reset'')
          \<and> events (generate_stream (init Map.empty) ?failing
                     [''What is X?''] [''X is a protocol.''] None)
              = [\<lparr> message = PyStr ''Hel'', finish_reason = PyNone \<rparr>]"
    using b1 n1 e1 by metis
  from generate_stream_termination_and_propagation
         [OF i2, of "init Map.empty" "[''What is X?'']" "[''X is a protocol.'']" None]
  have r2: "raised (generate_stream (init Map.empty) ?ending
                     [''What is X?''] [''X is a protocol.''] None) = None
          \<and> events (generate_stream (init Map.empty) ?ending
                     [''What is X?''] [''X is a protocol.''] None)
              = [\<lparr> message = PyStr ''Hel'', finish_reason = PyNone \<rparr>,
                 \<lparr> message = PyStr ''lo'', finish_reason = PyStr ''stop'' \<rparr>]"
    using b2 e2 by metis
  from generate_stream_termination_and_propagation
         [OF i3, of "init Map.empty" "[''What is X?'']" "[''X is a protocol.'']" None]
  have r3: "raised (generate_stream (init Map.empty) ?refusing
                     [''What is X?''] [''X is a protocol.''] None)
              = Some (BackendError ''401'')"
    using b3 n3 by metis
  from generate_stream_termination_and_propagation
         [OF i4, of "init Map.empty" "[''What is X?'']" "[''X is a protocol.'']" None]
  have r4: "raised (generate_stream (init Map.empty) ?signalled
                     [''What is X?''] [''X is a protocol.''] None) = None
          \<and> events (generate_stream (init Map.empty) ?signalled
                     [''What is X?''] [''X is a protocol.''] None)
              = [\<lparr> message = PyStr ''Hel'', finish_reason = PyNone \<rparr>]"
    using b4 e1 by metis
  from generate_stream_termination_and_propagation
         [OF i5, of "init Map.empty" "[''What is X?'']" "[''X is a protocol.'']" None]
  have r5: "raised (generate_stream (init Map.empty) ?stopping
                     [''What is X?''] [''X is a protocol.''] None)
              = Some (RuntimeError ''async generator raised StopIteration'')
          \<and> events (generate_stream (init Map.empty) ?stopping
                     [''What is X?''] [''X is a protocol.''] None)
              = [\<lparr> message = PyStr ''Hel'', finish_reason = PyNone \<rparr>]"
    using b5 e1 by metis
  from generate_stream_termination_and_propagation
         [OF i6, of "init Map.empty" "[''What is X?'']" "[''X is a protocol.'']" None]
  have r6: "raised (generate_stream (init Map.empty) ?open_stop
                     [''What is X?''] [''X is a protocol.''] None)
              = Some (RuntimeError ''async generator raised StopIteration'')"
    using b6 by metis
  from generate_stream_termination_and_propagation
         [OF i7, of "init Map.empty" "[''What is X?'']" "[''X is a protocol.'']" None]
  have r7: "raised (generate_stream (init Map.empty) ?open_signal
                     [''What is X?''] [''X is a protocol.''] None)
              = Some (RuntimeError ''async generator raised StopAsyncIteration'')"
    using b7 by metis
  from i1 n1 r1 r2 r3 n3 r4 r5 r6 r7 show ?thesis by blast
qed

text \<open>
  C8. When the import of the backend package succeeds, the call opens one request. It carries
  the streaming flag, the temperature 0.0, the model name and the composed prompt, and its
  deployment identifier is the model name when the API type in force (the environment's
  OPENAI_API_TYPE if set, the module's own value otherwise) is azure, and absent otherwise.
\<close>

theorem generate_stream_request:
  assumes "openai_import w = Inr installed"
  shows "requests_opened (generate_stream self w queries context conversation) =
     [\<lparr> model = model_name self,
        messages = prepare_messages queries context
                     (case conversation of None \<Rightarrow> [] | Some c \<Rightarrow> c),
        stream = Some True,
        temperature = Some 0.0,
        deployment_id =
          (if getenv_default (environ w) ''OPENAI_API_TYPE'' (api_type installed) = ''azure''
           then Some (model_name self) else None) \<rparr>]"
proof -
  from generate_stream_after_import [OF assms, of self queries "context" conversation]
  obtain m a where
    run: "generate_stream self w queries context conversation =
           (case ChatCompletion_acreate w m a of
              Inl e \<Rightarrow>
                \<lparr> events = [], raised = Some (async_generator_exit e),
                  requests_opened = [a], openai_after = Some m \<rparr>
            | Inr completion \<Rightarrow>
                \<lparr> events = fst (completion_loop completion),
                  raised = map_option async_generator_exit (snd (completion_loop completion)),
                  requests_opened = [a], openai_after = Some m \<rparr>)"
    and args: "a = \<lparr> model = model_name self,
                 messages = prepare_messages queries context
                              (case conversation of None \<Rightarrow> [] | Some c \<Rightarrow> c),
                 stream = Some True,
                 temperature = Some 0.0,
                 deployment_id =
                   (if getenv_default (environ w) ''OPENAI_API_TYPE'' (api_type installed)
                         = ''azure''
                    then Some (model_name self) else None) \<rparr>"
    by blast
  have "requests_opened (generate_stream self w queries context conversation) = [a]"
    unfolding run by (cases "ChatCompletion_acreate w m a") simp_all
  then show ?thesis unfolding args .
qed

theorem generate_stream_request_witness:
  "openai_import (scripted_world [''OPENAI_API_TYPE'' \<mapsto> ''azure''] default_openai
       (Inl IndexError) (Inr [])) = Inr default_openai
   \<and> requests_opened (generate_stream (init Map.empty)
        (scripted_world [''OPENAI_API_TYPE'' \<mapsto> ''azure''] default_openai
           (Inl IndexError) (Inr []))
        [''a'', ''b''] [''c''] None) =
     [\<lparr> model = ''gemini-1.5-pro-preview-0409'',
        messages = prepare_messages [''a'', ''b''] [''c''] [],
        stream = Some True,
        temperature = Some 0,
        deployment_id = Some ''gemini-1.5-pro-preview-0409'' \<rparr>]
   \<and> requests_opened (generate_stream (init Map.empty)
        (scripted_world Map.empty default_openai (Inl IndexError) (Inr []))
        [''a'', ''b''] [''c''] None) =
     [\<lparr> model = ''gemini-1.5-pro-preview-0409'',
        messages = prepare_messages [''a'', ''b''] [''c''] [],
        stream = Some True,
        temperature = Some 0,
        deployment_id = None \<rparr>]"
  using
    generate_stream_request
      [of "scripted_world [''OPENAI_API_TYPE'' \<mapsto> ''azure''] default_openai
             (Inl IndexError) (Inr [])"
          default_openai "init Map.empty" "[''a'', ''b'']" "[''c'']" None]
    generate_stream_request
      [of "scripted_world Map.empty default_openai (Inl IndexError) (Inr [])"
          default_openai "init Map.empty" "[''a'', ''b'']" "[''c'']" None]
  by (simp add: scripted_world_def default_openai_def init_def getenv_default_def)


section \<open>Properties of the blocking operation\<close>

text \<open>
  C10. For every input, the blocking call issues no request and raises: the exception of
  \<^verbatim>\<open>vertexai.init\<close> if that call raises (as it leaves the coroutine), and otherwise the
  NameError of the unbound name openai.
\<close>

theorem generate_always_raises:
  "requests_sent (generate self w queries context conversation) = []
   \<and> returned (generate self w queries context conversation) =
       Inl (case vertexai_init w (environ w ''GOOGLE_CLOUD_PROJECT'') ''us-central1'' of
              Some e \<Rightarrow> coroutine_exit e
            | None \<Rightarrow> NameError ''openai'')"
  by (simp add: generate_def Let_def load_global_def module_globals_def coroutine_exit_def
        split: option.split)


text \<open>
  C7. The blocking call at the input of Scenario A, with a backend that would answer
  "X is a protocol.": the call raises the NameError and sends nothing.
\<close>

theorem generate_scenario_A_raises:
  "generate (init Map.empty)
     (scripted_world Map.empty default_openai
        (Inr \<lparr> completion_choices = [\<lparr> message_content = PyStr ''X is a protocol.'' \<rparr>] \<rparr>)
        (Inr []))
     [''What is X?''] [''X is a protocol.''] (Some [])
   = \<lparr> returned = Inl (NameError ''openai''), requests_sent = [] \<rparr>"
  by (simp add: generate_def Let_def load_global_def module_globals_def scripted_world_def
        coroutine_exit_def)

section \<open>The composer does not change its inputs\<close>

lemma deref_old: "a < length s \<Longrightarrow> deref (s @ t) a = deref s a"
  by (simp add: deref_def nth_append)

lemma list_append_new:
  "list_append (s @ [DictList ms]) (length s) x = s @ [DictList (ms @ [x])]"
  by (simp add: list_append_def deref_def)

lemma fold_list_append_new:
  "fold (\<lambda>message s'. list_append s' (length s) (f message)) items (s @ [DictList ms])
     = s @ [DictList (ms @ map f items)]"
  by (induction items arbitrary: ms) (simp_all add: list_append_new)

lemma take_list_append: "take n (list_append s n x) = take n s"
  by (simp add: list_append_def split: option.split pyobject.split)

lemma take_fold_list_append:
  "take n (fold (\<lambda>message s'. list_append s' n (f message)) items s) = take n s"
  by (induction items arbitrary: s) (simp_all add: take_list_append)

lemma prepare_messages_in_store_run:
  assumes "deref s queries = Some (StrList qs)"
      and "deref s context = Some (StrList cs)"
      and "deref s conversation = Some (ItemList items)"
  shows "prepare_messages_in_store s queries context conversation
           = (Inr (length s), s @ [DictList (prepare_messages qs cs items)])"
proof -
  have q: "queries < length s" and c: "context < length s" and v: "conversation < length s"
    using assms by (auto simp: deref_def split: if_splits)
  show ?thesis
    unfolding prepare_messages_in_store_def new_list_def
    using assms
    by (simp add: Let_def deref_old q c v fold_list_append_new list_append_new
          prepare_messages_eq)
qed

lemma prepare_messages_in_store_old:
  "take (length s) (snd (prepare_messages_in_store s queries context conversation)) = s"
  unfolding prepare_messages_in_store_def new_list_def
  by (simp add: Let_def take_list_append take_fold_list_append split: sum.split)


text \<open>
  C9. On a store of objects, the composer changes no object that existed before the call,
  whatever it is given. Given a list of strings, a list of strings and a list of turns, it
  returns a reference to a new list whose entries are a function of the contents of the three
  inputs alone; so two calls, in any two stores, on inputs of equal contents return lists of
  equal contents. The composer reads neither the environment nor the backend.
\<close>

theorem prepare_messages_pure:
  "take (length s) (snd (prepare_messages_in_store s queries context conversation)) = s
   \<and> (deref s queries = Some (StrList qs) \<and> deref s context = Some (StrList cs)
        \<and> deref s conversation = Some (ItemList items) \<longrightarrow>
      prepare_messages_in_store s queries context conversation
        = (Inr (length s), s @ [DictList (prepare_messages qs cs items)]))
   \<and> (deref s queries = Some (StrList qs) \<and> deref s context = Some (StrList cs)
        \<and> deref s conversation = Some (ItemList items)
        \<and> deref t queries' = Some (StrList qs) \<and> deref t context' = Some (StrList cs)
        \<and> deref t conversation' = Some (ItemList items) \<longrightarrow>
      fst (prepare_messages_in_store s queries context conversation) = Inr (length s)
      \<and> fst (prepare_messages_in_store t queries' context' conversation') = Inr (length t)
      \<and> deref (snd (prepare_messages_in_store s queries context conversation)) (length s)
          = deref (snd (prepare_messages_in_store t queries' context' conversation')) (length t))"
proof -
  have fresh: "deref (u @ [x]) (length u) = Some x" for u :: store and x
    by (simp add: deref_def)
  show ?thesis
    using prepare_messages_in_store_old [of s queries "context" conversation]
      prepare_messages_in_store_run [of s queries qs "context" cs conversation items]
      prepare_messages_in_store_run [of t queries' qs context' cs conversation' items]
    by (simp add: fresh)
qed

theorem prepare_messages_pure_witness:
  "deref [StrList [''a'', ''b''], StrList [''c''],
          ItemList [\<lparr> type = ''user'', content_attr = ''hi'' \<rparr>]] 0 = Some (StrList [''a'', ''b''])
   \<and> deref [StrList [''a'', ''b''], StrList [''c''],
          ItemList [\<lparr> type = ''user'', content_attr = ''hi'' \<rparr>]] 1 = Some (StrList [''c''])
   \<and> deref [StrList [''a'', ''b''], StrList [''c''],
          ItemList [\<lparr> type = ''user'', content_attr = ''hi'' \<rparr>]] 2
       = Some (ItemList [\<lparr> type = ''user'', content_attr = ''hi'' \<rparr>])
   \<and> deref [ItemList [\<lparr> type = ''user'', content_attr = ''hi'' \<rparr>], StrList [''c''],
            StrList [], StrList [''a'', ''b'']] 3 = Some (StrList [''a'', ''b''])
   \<and> deref [ItemList [\<lparr> type = ''user'', content_attr = ''hi'' \<rparr>], StrList [''c''],
            StrList [], StrList [''a'', ''b'']] 1 = Some (StrList [''c''])
   \<and> deref [ItemList [\<lparr> type = ''user'', content_attr = ''hi'' \<rparr>], StrList [''c''],
            StrList [], StrList [''a'', ''b'']] 0
       = Some (ItemList [\<lparr> type = ''user'', content_attr = ''hi'' \<rparr>])
   \<and> prepare_messages_in_store
         [StrList [''a'', ''b''], StrList [''c''],
          ItemList [\<lparr> type = ''user'', content_attr = ''hi'' \<rparr>]] 0 1 2
       = (Inr 3,
          [StrList [''a'', ''b''], StrList [''c''],
           ItemList [\<lparr> type = ''user'', content_attr = ''hi'' \<rparr>],
           DictList [\<lparr> role = ''system'', content = system_content \<rparr>,
                     \<lparr> role = ''user'', content = ''hi'' \<rparr>,
                     \<lparr> role = ''user'',
                       content = ''Please answer this query: 'a b' with this provided context: c'' \<rparr>]])
   \<and> deref (snd (prepare_messages_in_store
                     [StrList [''a'', ''b''], StrList [''c''],
                      ItemList [\<lparr> type = ''user'', content_attr = ''hi'' \<rparr>]] 0 1 2)) 3
       = deref (snd (prepare_messages_in_store
                     [ItemList [\<lparr> type = ''user'', content_attr = ''hi'' \<rparr>], StrList [''c''],
                      StrList [], StrList [''a'', ''b'']] 3 1 0)) 4"
proof -
  let ?s = "[StrList [''a'', ''b''], StrList [''c''],
             ItemList [\<lparr> type = ''user'', content_attr = ''hi'' \<rparr>]]"
  let ?t = "[ItemList [\<lparr> type = ''user'', content_attr = ''hi'' \<rparr>], StrList [''c''],
             StrList [], StrList [''a'', ''b'']]"
  have h: "deref ?s 0 = Some (StrList [''a'', ''b''])" "deref ?s 1 = Some (StrList [''c''])"
    "deref ?s 2 = Some (ItemList [\<lparr> type = ''user'', content_attr = ''hi'' \<rparr>])"
    "deref ?t 3 = Some (StrList [''a'', ''b''])" "deref ?t 1 = Some (StrList [''c''])"
    "deref ?t 0 = Some (ItemList [\<lparr> type = ''user'', content_attr = ''hi'' \<rparr>])"
    by (simp_all add: deref_def)
  note pure = prepare_messages_pure
    [of ?s 0 1 2 "[''a'', ''b'']" "[''c'']"
        "[\<lparr> type = ''user'', content_attr = ''hi'' \<rparr>]" ?t 3 1 0]
  from pure h have run: "prepare_messages_in_store ?s 0 1 2
      = (Inr (length ?s),
         ?s @ [DictList (prepare_messages [''a'', ''b''] [''c'']
                           [\<lparr> type = ''user'', content_attr = ''hi'' \<rparr>])])"
    by blast
  from pure h have same:
    "deref (snd (prepare_messages_in_store ?s 0 1 2)) (length ?s)
       = deref (snd (prepare_messages_in_store ?t 3 1 0)) (length ?t)"
    by blast
  have l: "length ?s = 3" "length ?t = 4"
    by simp_all
  from same have same': "deref (snd (prepare_messages_in_store ?s 0 1 2)) 3
       = deref (snd (prepare_messages_in_store ?t 3 1 0)) 4"
    unfolding l .
  have run': "prepare_messages_in_store ?s 0 1 2
       = (Inr 3,
          [StrList [''a'', ''b''], StrList [''c''],
           ItemList [\<lparr> type = ''user'', content_attr = ''hi'' \<rparr>],
           DictList [\<lparr> role = ''system'', content = system_content \<rparr>,
                     \<lparr> role = ''user'', content = ''hi'' \<rparr>,
                     \<lparr> role = ''user'',
                       content = ''Please answer this query: 'a b' with this provided context: c'' \<rparr>]])"
    unfolding run by (simp add: prepare_messages_eq)
  from h run' same' show ?thesis by blast
qed

end
